theory Spec2Isabelle
  imports Complex_Main "HOL-Library.Log_Nat" "HOL-Library.Multiset"
begin

section \<open>Python values used by priority_scorer.py\<close>

subsection \<open>Exceptions\<close>

text \<open>
  The exceptions that can leave the functions modelled below. \<open>OSError\<close> stands for any
  failure of \<^verbatim>\<open>open\<close>/\<^verbatim>\<open>read\<close> other than \<^verbatim>\<open>FileNotFoundError\<close> (a directory, a
  permission, an undecodable byte). \<open>Dynamic_type_mismatch\<close> is not a Python exception:
  it marks a task record whose field value does not have the type its dataclass
  annotation names; the dataclass stores such a value unchecked, which the typed record
  \<open>Task\<close> below cannot represent, so the model stops there.
\<close>

datatype exn =
    FileNotFoundError
  | JSONDecodeError
  | OSError
  | AttributeError
  | TypeError
  | OverflowError
  | ZeroDivisionError
  | Dynamic_type_mismatch

subsection \<open>Floats\<close>

text \<open>
  A Python float is an IEEE-754 binary64 number. A finite one is modelled by the rational
  number it denotes, and every float operation by the exact operation followed by \<open>fl\<close>,
  rounding to the nearest number with a 53-bit significand, ties to the even significand.
  The exponent is not bounded in \<open>fl\<close>; the one place of this program where a float can
  leave the binary64 range is the conversion of a Python int, which raises
  \<^verbatim>\<open>OverflowError\<close> (see \<open>int_to_float\<close>). NaN and the infinities are not modelled.
\<close>

definition round_half_even :: "rat \<Rightarrow> int" where
  "round_half_even x =
     (let f = \<lfloor>x\<rfloor>; d = x - of_int f
      in if d < 1 / 2 then f else if 1 / 2 < d then f + 1 else if even f then f else f + 1)"

text \<open>\<open>binary_exponent x\<close> is the \<open>e\<close> with \<open>2 powi e \<le> \<bar>x\<bar> < 2 powi (e + 1)\<close>, for \<open>x \<noteq> 0\<close>.\<close>

definition binary_exponent :: "rat \<Rightarrow> int" where
  "binary_exponent x =
     (let (p, q) = quotient_of \<bar>x\<bar>; k = bitlen p - bitlen q
      in if 2 powi k \<le> \<bar>x\<bar> then k else k - 1)"

definition fl :: "rat \<Rightarrow> rat" where
  "fl x = (if x = 0 then 0
           else let u = 2 powi (binary_exponent x - 52)
                in of_int (round_half_even (x / u)) * u)"

text \<open>
  \<^verbatim>\<open>int * float\<close> first converts the int (\<^verbatim>\<open>PyLong_AsDouble\<close>: correctly rounded,
  \<^verbatim>\<open>OverflowError\<close> when the rounded value does not fit).
\<close>

definition int_to_float :: "int \<Rightarrow> exn + rat" where
  "int_to_float n =
     (let x = fl (of_int n) in if 2 ^ 1024 \<le> \<bar>x\<bar> then Inl OverflowError else Inr x)"

definition fmul :: "rat \<Rightarrow> rat \<Rightarrow> rat" where
  "fmul x y = fl (x * y)"

definition fadd :: "rat \<Rightarrow> rat \<Rightarrow> rat" where
  "fadd x y = fl (x + y)"

text \<open>\<^verbatim>\<open>float / float\<close> and \<^verbatim>\<open>int / int\<close> (true division, correctly rounded).\<close>

definition fdiv :: "rat \<Rightarrow> rat \<Rightarrow> exn + rat" where
  "fdiv x y = (if y = 0 then Inl ZeroDivisionError else Inr (fl (x / y)))"

definition int_truediv :: "int \<Rightarrow> int \<Rightarrow> exn + rat" where
  "int_truediv a b =
     (if b = 0 then Inl ZeroDivisionError
      else let x = fl (of_int a / of_int b)
           in if 2 ^ 1024 \<le> \<bar>x\<bar> then Inl OverflowError else Inr x)"

text \<open>
  \<^verbatim>\<open>round(x, 2)\<close> on a float: CPython writes \<open>x\<close> in decimal with two digits after the
  point, correctly rounded from the exact binary value (ties to even), and reads the
  decimal back as the nearest float.
\<close>

definition py_round2 :: "rat \<Rightarrow> rat" where
  "py_round2 x = fl (of_int (round_half_even (x * 100)) / 100)"

subsection \<open>Lists\<close>

text \<open>\<^verbatim>\<open>xs[:n]\<close>: a negative bound counts from the end, and the bounds are clamped.\<close>

definition slice_to :: "'a list \<Rightarrow> int \<Rightarrow> 'a list" where
  "slice_to xs n = (if 0 \<le> n then take (nat n) xs else take (length xs - nat (- n)) xs)"

text \<open>
  \<^verbatim>\<open>sorted(xs, key=key, reverse=reverse)\<close>: a stable ascending sort; with
  \<^verbatim>\<open>reverse=True\<close> CPython reverses the list, sorts it and reverses the result.
\<close>

definition py_sorted :: "('a \<Rightarrow> 'k::linorder) \<Rightarrow> bool \<Rightarrow> 'a list \<Rightarrow> 'a list" where
  "py_sorted key reverse xs =
     (if reverse then rev (sort_key key (rev xs)) else sort_key key xs)"

subsection \<open>Dates and times\<close>

text \<open>
  A naive \<^verbatim>\<open>datetime\<close> is the number of microseconds since the midnight that starts
  day 0 of the proleptic Gregorian ordinal count; a \<^verbatim>\<open>timedelta\<close> is a number of
  microseconds, and its \<^verbatim>\<open>days\<close> attribute is the floor of the quotient by a day.
\<close>

definition us_per_day :: int where
  "us_per_day = 86400000000"

definition midnight :: "int \<Rightarrow> int" where
  "midnight ordinal = ordinal * us_per_day"

definition date_of :: "int \<Rightarrow> int" where
  "date_of dt = dt div us_per_day"

definition time_of_day :: "int \<Rightarrow> int" where
  "time_of_day dt = dt mod us_per_day"

definition timedelta_days :: "int \<Rightarrow> int" where
  "timedelta_days us = us div us_per_day"

definition datetime :: "int \<Rightarrow> int \<Rightarrow> int \<Rightarrow> int \<Rightarrow> int" where
  "datetime ordinal hour minute second =
     midnight ordinal + ((hour * 60 + minute) * 60 + second) * 1000000"

text \<open>
  \<^verbatim>\<open>datetime.strptime(s, "%Y-%m-%d")\<close> is a parameter of the model, of type \<open>date_parser\<close>:
  the ordinal of the date that \<open>s\<close> denotes, or \<open>None\<close> where \<^verbatim>\<open>strptime\<close> raises
  \<^verbatim>\<open>ValueError\<close>. The \<^verbatim>\<open>datetime\<close> it returns is the midnight of that date.
\<close>

type_synonym date_parser = "string \<Rightarrow> int option"

text \<open>
  \<open>iso_date\<close> is one such parser, for the zero-padded form \<^verbatim>\<open>YYYY-MM-DD\<close> in ASCII
  digits, with the ordinal of the proleptic Gregorian calendar (1 for 0001-01-01). It is
  narrower than \<^verbatim>\<open>strptime\<close>, which also reads a month or a day of one digit; it only
  instantiates the parameter in the examples, at padded dates and at strings that
  \<^verbatim>\<open>strptime\<close> rejects as well.
\<close>

definition digit_value :: "char \<Rightarrow> int option" where
  "digit_value c =
     (let code = (of_char c :: int) in if 48 \<le> code \<and> code \<le> 57 then Some (code - 48) else None)"

fun digits_value :: "int \<Rightarrow> string \<Rightarrow> int option" where
  "digits_value acc [] = Some acc"
| "digits_value acc (c # cs) =
     (case digit_value c of None \<Rightarrow> None | Some d \<Rightarrow> digits_value (10 * acc + d) cs)"

definition is_leap :: "int \<Rightarrow> bool" where
  "is_leap y = (if y mod 400 = 0 then True else if y mod 100 = 0 then False else y mod 4 = 0)"

definition days_in_month :: "int \<Rightarrow> int \<Rightarrow> int" where
  "days_in_month y m =
     (if m = 2 then (if is_leap y then 29 else 28)
      else if m = 4 \<or> m = 6 \<or> m = 9 \<or> m = 11 then 30 else 31)"

definition days_before_year :: "int \<Rightarrow> int" where
  "days_before_year y = (y - 1) * 365 + (y - 1) div 4 - (y - 1) div 100 + (y - 1) div 400"

definition days_before_month :: "int \<Rightarrow> int \<Rightarrow> int" where
  "days_before_month y m =
     (if m = 1 then 0 else if m = 2 then 31 else if m = 3 then 59 else if m = 4 then 90
      else if m = 5 then 120 else if m = 6 then 151 else if m = 7 then 181
      else if m = 8 then 212 else if m = 9 then 243 else if m = 10 then 273
      else if m = 11 then 304 else 334)
     + (if 2 < m \<and> is_leap y then 1 else 0)"

definition iso_date :: date_parser where
  "iso_date s =
     (case s of
        [y1, y2, y3, y4, dash1, m1, m2, dash2, d1, d2] \<Rightarrow>
          if dash1 = CHR ''-'' \<and> dash2 = CHR ''-'' then
            (case (digits_value 0 [y1, y2, y3, y4], digits_value 0 [m1, m2],
                   digits_value 0 [d1, d2]) of
               (Some y, Some m, Some d) \<Rightarrow>
                 if 1 \<le> y \<and> 1 \<le> m \<and> m \<le> 12 \<and> 1 \<le> d \<and> d \<le> days_in_month y m
                 then Some (days_before_year y + days_before_month y m + d)
                 else None
             | _ \<Rightarrow> None)
          else None
      | _ \<Rightarrow> None)"

subsection \<open>JSON documents and files\<close>

text \<open>
  What \<^verbatim>\<open>json.load\<close> returns. An object is the list of its items; \<^verbatim>\<open>json.load\<close>
  keeps one value per key.
\<close>

datatype json =
    JNull
  | JBool bool
  | JInt int
  | JFloat rat
  | JString string
  | JArray "json list"
  | JObject "(string \<times> json) list"

text \<open>
  What \<^verbatim>\<open>open(filepath, 'r')\<close> followed by \<^verbatim>\<open>json.load\<close> finds at a path: no file
  (\<^verbatim>\<open>FileNotFoundError\<close>), a file that cannot be read (another exception), a text that
  is not JSON (\<^verbatim>\<open>JSONDecodeError\<close>), or a JSON document.
\<close>

datatype file_state = Missing | Unreadable | Not_json | Document json

type_synonym file_system = "string \<Rightarrow> file_state"

section \<open>The task priority scorer\<close>

subsection \<open>Data model\<close>

record Task =
  name :: string
  urgency :: int
  importance :: int
  effort :: int
  deadline :: string
  status :: string
  priority :: string
  score :: rat

text \<open>What the program prints, one value per \<^verbatim>\<open>print\<close> call.\<close>

datatype indicator = Red | Orange | Yellow | Green

datatype deadline_display =
    Overdue
  | Today
  | Tomorrow
  | Days_yellow int
  | Days_green int
  | Days_plain int
  | Unknown

datatype message =
    Loaded nat string
  | File_not_found string
  | Invalid_json string
  | Invalid_deadline string
  | Scored nat
  | Blank
  | Rule
  | Top_header int
  | All_header
  | Table_header
  | Table_rule
  | Row nat indicator rat string int int deadline_display
  | Statistics_error string
  | Statistics_title
  | Totals_line nat nat
  | Average_line rat nat
  | Highest_line rat nat
  | Lowest_line rat rat

text \<open>
  Tasks are objects: \<open>heap\<close> gives the fields of the object at each address, and
  \<open>tasks\<close> (the attribute \<^verbatim>\<open>self.tasks\<close>) is a list of addresses, in which an address may
  occur twice. \<open>allocated\<close> is the first address not yet given to an object.
\<close>

record world =
  heap :: "nat \<Rightarrow> Task"
  allocated :: nat
  tasks :: "nat list"
  stdout :: "message list"

definition print :: "message \<Rightarrow> world \<Rightarrow> world" where
  "print m w = w\<lparr>stdout := stdout w @ [m]\<rparr>"

text \<open>The weights: the floats that the literals 0.4, 0.3, 0.2 and 0.1 denote.\<close>

definition URGENCY_WEIGHT :: rat where
  "URGENCY_WEIGHT = fl (4 / 10)"

definition IMPORTANCE_WEIGHT :: rat where
  "IMPORTANCE_WEIGHT = fl (3 / 10)"

definition DEADLINE_WEIGHT :: rat where
  "DEADLINE_WEIGHT = fl (2 / 10)"

definition EFFORT_WEIGHT :: rat where
  "EFFORT_WEIGHT = fl (1 / 10)"

definition NAME_WIDTH :: nat where
  "NAME_WIDTH = 32"

subsection \<open>Loading and adding tasks\<close>

definition field_names :: "string list" where
  "field_names =
     [''name'', ''urgency'', ''importance'', ''effort'', ''deadline'', ''status'',
      ''priority'', ''score'']"

definition required_fields :: "string list" where
  "required_fields = [''name'', ''urgency'', ''importance'', ''effort'', ''deadline'']"

definition as_str :: "json \<Rightarrow> string option" where
  "as_str j = (case j of JString s \<Rightarrow> Some s | _ \<Rightarrow> None)"

definition as_int :: "json \<Rightarrow> int option" where
  "as_int j = (case j of JInt n \<Rightarrow> Some n | _ \<Rightarrow> None)"

definition as_float :: "json \<Rightarrow> rat option" where
  "as_float j = (case j of JFloat x \<Rightarrow> Some x | JInt n \<Rightarrow> Some (of_int n) | _ \<Rightarrow> None)"

text \<open>
  \<^verbatim>\<open>Task(**task)\<close>: the argument must be a mapping, a key that is no field and a missing
  field without default raise \<^verbatim>\<open>TypeError\<close>; \<open>status\<close>, \<open>priority\<close> and \<open>score\<close>
  default to \<^verbatim>\<open>"todo"\<close>, \<^verbatim>\<open>"medium"\<close> and \<^verbatim>\<open>0.0\<close>. A value of another type than the
  annotation of its field is stored unchecked by Python; the typed record cannot hold
  it, and \<open>make_task\<close> marks the case with \<open>Dynamic_type_mismatch\<close>.
\<close>

definition make_task :: "json \<Rightarrow> exn + Task" where
  "make_task j =
     (case j of
        JObject kv \<Rightarrow>
          if list_all (\<lambda>k. k \<in> set field_names) (map fst kv)
             \<and> list_all (\<lambda>k. k \<in> set (map fst kv)) required_fields
          then
            (case (Option.bind (map_of kv ''name'') as_str,
                   Option.bind (map_of kv ''urgency'') as_int,
                   Option.bind (map_of kv ''importance'') as_int,
                   Option.bind (map_of kv ''effort'') as_int,
                   Option.bind (map_of kv ''deadline'') as_str,
                   (case map_of kv ''status'' of None \<Rightarrow> Some ''todo'' | Some v \<Rightarrow> as_str v),
                   (case map_of kv ''priority'' of None \<Rightarrow> Some ''medium'' | Some v \<Rightarrow> as_str v),
                   (case map_of kv ''score'' of None \<Rightarrow> Some 0 | Some v \<Rightarrow> as_float v)) of
               (Some n, Some u, Some i, Some e, Some d, Some s, Some p, Some sc) \<Rightarrow>
                 Inr \<lparr>name = n, urgency = u, importance = i, effort = e, deadline = d,
                      status = s, priority = p, score = sc\<rparr>
             | _ \<Rightarrow> Inl Dynamic_type_mismatch)
          else Inl TypeError
      | _ \<Rightarrow> Inl TypeError)"

fun make_tasks :: "json list \<Rightarrow> exn + Task list" where
  "make_tasks [] = Inr []"
| "make_tasks (j # js) =
     (case make_task j of
        Inl e \<Rightarrow> Inl e
      | Inr t \<Rightarrow> (case make_tasks js of Inl e \<Rightarrow> Inl e | Inr ts \<Rightarrow> Inr (t # ts)))"

text \<open>\<^verbatim>\<open>data.get('tasks', [])\<close>: only a dict has the method.\<close>

definition get_tasks :: "json \<Rightarrow> exn + json" where
  "get_tasks data =
     (case data of
        JObject kv \<Rightarrow> Inr (case map_of kv ''tasks'' of None \<Rightarrow> JArray [] | Some v \<Rightarrow> v)
      | _ \<Rightarrow> Inl AttributeError)"

text \<open>What \<^verbatim>\<open>for task in ...\<close> iterates over: items, keys or characters.\<close>

definition iterate :: "json \<Rightarrow> exn + json list" where
  "iterate j =
     (case j of
        JArray js \<Rightarrow> Inr js
      | JObject kv \<Rightarrow> Inr (map (JString \<circ> fst) kv)
      | JString s \<Rightarrow> Inr (map (\<lambda>c. JString [c]) s)
      | _ \<Rightarrow> Inl TypeError)"

definition tasks_of_document :: "json \<Rightarrow> exn + Task list" where
  "tasks_of_document data =
     (case get_tasks data of
        Inl e \<Rightarrow> Inl e
      | Inr v \<Rightarrow> (case iterate v of Inl e \<Rightarrow> Inl e | Inr js \<Rightarrow> make_tasks js))"

text \<open>The new objects get the next free addresses, in the order of the document.\<close>

fun store_tasks :: "nat \<Rightarrow> Task list \<Rightarrow> (nat \<Rightarrow> Task) \<Rightarrow> (nat \<Rightarrow> Task)" where
  "store_tasks a [] h = h"
| "store_tasks a (t # ts) h = store_tasks (Suc a) ts (h(a := t))"

text \<open>
  A method returns the exception that leaves it, if any, and the world it leaves behind.
  Only \<^verbatim>\<open>FileNotFoundError\<close> and \<^verbatim>\<open>json.JSONDecodeError\<close> are caught by the loader.
\<close>

definition load_tasks_from_json :: "file_system \<Rightarrow> string \<Rightarrow> world \<Rightarrow> exn option \<times> world" where
  "load_tasks_from_json fs filepath w =
     (case fs filepath of
        Missing \<Rightarrow> (None, print (File_not_found filepath) w)
      | Unreadable \<Rightarrow> (Some OSError, w)
      | Not_json \<Rightarrow> (None, print (Invalid_json filepath) w)
      | Document data \<Rightarrow>
          (case tasks_of_document data of
             Inl e \<Rightarrow> (Some e, w)
           | Inr ts \<Rightarrow>
               (let w1 = w\<lparr>heap := store_tasks (allocated w) ts (heap w),
                            allocated := allocated w + length ts,
                            tasks := [allocated w ..< allocated w + length ts]\<rparr>
                in (None, print (Loaded (length (tasks w1)) filepath) w1))))"

definition add_task :: "nat \<Rightarrow> world \<Rightarrow> world" where
  "add_task task w = w\<lparr>tasks := tasks w @ [task]\<rparr>"

subsection \<open>Scoring\<close>

definition calculate_deadline_factor :: "date_parser \<Rightarrow> int \<Rightarrow> string \<Rightarrow> rat \<times> message list" where
  "calculate_deadline_factor strptime now deadline_str =
     (case strptime deadline_str of
        None \<Rightarrow> (5, [Invalid_deadline deadline_str])
      | Some d \<Rightarrow>
          (let deadline = midnight d;
               today = now;
               days_until = timedelta_days (deadline - today)
           in (if days_until < 0 then 10
               else if days_until = 0 then 10
               else if days_until = 1 then 9
               else if days_until \<le> 3 then 8
               else if days_until \<le> 7 then 6
               else if days_until \<le> 14 then 4
               else if days_until \<le> 30 then 2
               else 1, [])))"

definition calculate_effort_efficiency :: "int \<Rightarrow> int" where
  "calculate_effort_efficiency e = 10 - e"

text \<open>
  The sum is taken left to right; the three ints are converted where they meet a float.
\<close>

definition weighted_sum :: "int \<Rightarrow> int \<Rightarrow> rat \<Rightarrow> int \<Rightarrow> exn + rat" where
  "weighted_sum u i deadline_factor effort_efficiency =
     (case int_to_float u of
        Inl e \<Rightarrow> Inl e
      | Inr uf \<Rightarrow>
          (case int_to_float i of
             Inl e \<Rightarrow> Inl e
           | Inr imf \<Rightarrow>
               (case int_to_float effort_efficiency of
                  Inl e \<Rightarrow> Inl e
                | Inr ef \<Rightarrow>
                    Inr (fadd (fadd (fadd (fmul uf URGENCY_WEIGHT) (fmul imf IMPORTANCE_WEIGHT))
                                 (fmul deadline_factor DEADLINE_WEIGHT))
                           (fmul ef EFFORT_WEIGHT)))))"

definition calculate_task_score :: "date_parser \<Rightarrow> int \<Rightarrow> Task \<Rightarrow> (exn + rat) \<times> message list" where
  "calculate_task_score strptime now task =
     (let (deadline_factor, out) = calculate_deadline_factor strptime now (deadline task);
          effort_efficiency = calculate_effort_efficiency (effort task)
      in (case weighted_sum (urgency task) (importance task) deadline_factor effort_efficiency of
            Inl e \<Rightarrow> (Inl e, out)
          | Inr s \<Rightarrow> (Inr (py_round2 s), out)))"

text \<open>
  \<open>clock k\<close> is what \<^verbatim>\<open>datetime.now()\<close> returns in the iteration for the task at
  position \<open>k\<close>. An exception ends the loop, leaving the tasks before it scored.
\<close>

fun score_loop :: "date_parser \<Rightarrow> (nat \<Rightarrow> int) \<Rightarrow> nat \<Rightarrow> nat list \<Rightarrow> world \<Rightarrow> exn option \<times> world" where
  "score_loop strptime clock k [] w = (None, w)"
| "score_loop strptime clock k (task # rest) w =
     (case calculate_task_score strptime (clock k) (heap w task) of
        (Inl e, out) \<Rightarrow> (Some e, w\<lparr>stdout := stdout w @ out\<rparr>)
      | (Inr s, out) \<Rightarrow>
          score_loop strptime clock (Suc k) rest
            (w\<lparr>stdout := stdout w @ out, heap := (heap w)(task := (heap w task)\<lparr>score := s\<rparr>)\<rparr>))"

definition score_all_tasks :: "date_parser \<Rightarrow> (nat \<Rightarrow> int) \<Rightarrow> world \<Rightarrow> exn option \<times> world" where
  "score_all_tasks strptime clock w =
     (case score_loop strptime clock 0 (tasks w) w of
        (Some e, w1) \<Rightarrow> (Some e, w1)
      | (None, w1) \<Rightarrow> (None, print (Scored (length (tasks w1))) w1))"

subsection \<open>Ranking and display\<close>

definition get_sorted_tasks :: "bool \<Rightarrow> world \<Rightarrow> nat list \<times> world" where
  "get_sorted_tasks reverse w = (py_sorted (\<lambda>t. score (heap w t)) reverse (tasks w), w)"

definition truncate_name :: "string \<Rightarrow> string" where
  "truncate_name n = (if length n > NAME_WIDTH then take (NAME_WIDTH - 3) n @ ''...'' else n)"

definition get_deadline_display :: "date_parser \<Rightarrow> int \<Rightarrow> string \<Rightarrow> deadline_display" where
  "get_deadline_display strptime now deadline_str =
     (case strptime deadline_str of
        None \<Rightarrow> Unknown
      | Some d \<Rightarrow>
          (let deadline_obj = midnight d;
               days_until = timedelta_days (deadline_obj - now)
           in if days_until < 0 then Overdue
              else if days_until = 0 then Today
              else if days_until = 1 then Tomorrow
              else if days_until \<le> 3 then Days_yellow days_until
              else if days_until \<le> 7 then Days_green days_until
              else Days_plain days_until))"

definition get_score_indicator :: "rat \<Rightarrow> indicator" where
  "get_score_indicator s =
     (if s \<ge> 8 then Red else if s \<ge> 6 then Orange else if s \<ge> 4 then Yellow else Green)"

text \<open>
  The local \<^verbatim>\<open>sorted_tasks\<close> of \<^verbatim>\<open>display_results\<close>, after the slice. The test
  \<^verbatim>\<open>if top_n:\<close> on an \<^verbatim>\<open>Optional[int]\<close> is false for \<^verbatim>\<open>None\<close> and for 0.
\<close>

definition displayed_tasks :: "int option \<Rightarrow> world \<Rightarrow> nat list" where
  "displayed_tasks top_n w =
     (let sorted_tasks = fst (get_sorted_tasks True w)
      in case top_n of
           None \<Rightarrow> sorted_tasks
         | Some n \<Rightarrow> if n \<noteq> 0 then slice_to sorted_tasks n else sorted_tasks)"

definition section_header :: "int option \<Rightarrow> message" where
  "section_header top_n =
     (case top_n of
        None \<Rightarrow> All_header
      | Some n \<Rightarrow> if n \<noteq> 0 then Top_header n else All_header)"

definition table_row :: "date_parser \<Rightarrow> (nat \<Rightarrow> int) \<Rightarrow> world \<Rightarrow> nat \<times> nat \<Rightarrow> message" where
  "table_row strptime clock w p =
     (case p of (k, task) \<Rightarrow>
        (let t = heap w task;
             task_name = truncate_name (name t);
             deadline_display = get_deadline_display strptime (clock k) (deadline t);
             score_indicator = get_score_indicator (score t)
         in Row (Suc k) score_indicator (score t) task_name (urgency t) (importance t)
              deadline_display))"

definition display_results :: "date_parser \<Rightarrow> (nat \<Rightarrow> int) \<Rightarrow> int option \<Rightarrow> world \<Rightarrow> world" where
  "display_results strptime clock top_n w =
     (let sorted_tasks = displayed_tasks top_n w
      in w\<lparr>stdout := stdout w
             @ [Blank, Rule, section_header top_n, Rule, Blank, Table_header, Table_rule]
             @ map (table_row strptime clock w) (enumerate 0 sorted_tasks)
             @ [Blank]\<rparr>)"

subsection \<open>Statistics\<close>

record statistics =
  total_tasks :: nat
  average_score :: rat
  highest_score :: rat
  lowest_score :: rat
  average_urgency :: rat
  high_priority_tasks :: nat
  medium_priority_tasks :: nat
  low_priority_tasks :: nat

datatype stats_result = No_data string | Stats statistics

text \<open>
  The builtin \<^verbatim>\<open>sum\<close> on a list of floats is a parameter, \<open>float_sum\<close>: its rounding
  depends on the interpreter. \<open>naive_sum\<close>, adding from 0 to the right, is one such sum.
  The length of a list converts to a float without rounding.
\<close>

definition naive_sum :: "rat list \<Rightarrow> rat" where
  "naive_sum xs = foldl fadd 0 xs"

definition get_statistics :: "(rat list \<Rightarrow> rat) \<Rightarrow> world \<Rightarrow> exn + stats_result" where
  "get_statistics float_sum w =
     (if tasks w = [] then Inr (No_data ''No tasks to analyze'')
      else
        (let scores = map (\<lambda>task. score (heap w task)) (tasks w);
             urgencies = map (\<lambda>task. urgency (heap w task)) (tasks w)
         in (case fdiv (float_sum scores) (of_nat (length scores)) of
               Inl e \<Rightarrow> Inl e
             | Inr mean_score \<Rightarrow>
                 (case int_truediv (sum_list urgencies) (int (length urgencies)) of
                    Inl e \<Rightarrow> Inl e
                  | Inr mean_urgency \<Rightarrow>
                      Inr (Stats
                        \<lparr>total_tasks = length (tasks w),
                         average_score = py_round2 mean_score,
                         highest_score = Max (set scores),
                         lowest_score = Min (set scores),
                         average_urgency = py_round2 mean_urgency,
                         high_priority_tasks =
                           length (filter (\<lambda>t. score (heap w t) \<ge> 7) (tasks w)),
                         medium_priority_tasks =
                           length (filter (\<lambda>t. 4 \<le> score (heap w t) \<and> score (heap w t) < 7) (tasks w)),
                         low_priority_tasks =
                           length (filter (\<lambda>t. score (heap w t) < 4) (tasks w))\<rparr>)))))"

definition display_statistics :: "(rat list \<Rightarrow> rat) \<Rightarrow> world \<Rightarrow> exn option \<times> world" where
  "display_statistics float_sum w =
     (case get_statistics float_sum w of
        Inl e \<Rightarrow> (Some e, w)
      | Inr (No_data msg) \<Rightarrow> (None, print (Statistics_error msg) w)
      | Inr (Stats s) \<Rightarrow>
          (None, w\<lparr>stdout := stdout w
                   @ [Rule, Statistics_title, Rule, Blank,
                      Totals_line (total_tasks s) (high_priority_tasks s),
                      Average_line (average_score s) (medium_priority_tasks s),
                      Highest_line (highest_score s) (low_priority_tasks s),
                      Lowest_line (lowest_score s) (average_urgency s),
                      Blank]\<rparr>))"

subsection \<open>The score of the specification\<close>

text \<open>
  The weighted sum as the specification writes it, in exact rational arithmetic, and
  rounding to two decimal places (ties to the even hundredth). The program is compared
  with them; it does not use them.
\<close>

definition score_formula :: "int \<Rightarrow> int \<Rightarrow> rat \<Rightarrow> int \<Rightarrow> rat" where
  "score_formula u i deadline_factor effort_efficiency =
     of_int u * (4 / 10) + of_int i * (3 / 10) + deadline_factor * (2 / 10)
       + of_int effort_efficiency * (1 / 10)"

definition round_2dp :: "rat \<Rightarrow> rat" where
  "round_2dp x = of_int (round_half_even (x * 100)) / 100"

text \<open>The lookup table of the specification for the deadline factor.\<close>

definition deadline_table :: "int \<Rightarrow> rat" where
  "deadline_table days_until =
     (if days_until \<le> 0 then 10 else if days_until = 1 then 9 else if days_until \<le> 3 then 8
      else if days_until \<le> 7 then 6 else if days_until \<le> 14 then 4
      else if days_until \<le> 30 then 2 else 1)"

subsection \<open>Example worlds\<close>

text \<open>
  A scorer as \<^verbatim>\<open>__init__\<close> leaves it, and one holding two scored tasks: the report added
  first, the outage second.
\<close>

definition blank_task :: Task where
  "blank_task = \<lparr>name = [], urgency = 0, importance = 0, effort = 0, deadline = [],
                  status = ''todo'', priority = ''medium'', score = 0\<rparr>"

definition new_scorer :: world where
  "new_scorer = \<lparr>heap = (\<lambda>a. blank_task), allocated = 0, tasks = [], stdout = []\<rparr>"

definition report_task :: Task where
  "report_task = \<lparr>name = ''Write report'', urgency = 3, importance = 4, effort = 8,
                   deadline = ''2024-03-01'', status = ''todo'', priority = ''low'', score = 3\<rparr>"

definition outage_task :: Task where
  "outage_task = \<lparr>name = ''Fix outage'', urgency = 10, importance = 10, effort = 1,
                   deadline = ''2024-01-01'', status = ''todo'', priority = ''high'', score = 8\<rparr>"

definition two_tasks :: world where
  "two_tasks = \<lparr>heap = (\<lambda>a. blank_task)(0 := report_task, 1 := outage_task),
                 allocated = 2, tasks = [0, 1], stdout = []\<rparr>"


text \<open>
  Three file systems: one without files, one whose \<^verbatim>\<open>sample_tasks.json\<close> is not JSON, and
  one whose \<^verbatim>\<open>sample_tasks.json\<close> is a JSON document with a task record that has a name only.
\<close>

definition no_files :: file_system where
  "no_files path = Missing"

definition malformed_file :: file_system where
  "malformed_file path = (if path = ''sample_tasks.json'' then Not_json else Missing)"

definition incomplete_record_file :: file_system where
  "incomplete_record_file path =
     (if path = ''sample_tasks.json''
      then Document (JObject [(''tasks'', JArray [JObject [(''name'', JString ''Write report'')]])])
      else Missing)"

section \<open>Rounding\<close>

text \<open>Rounding to an integer moves a number by at most one half, and fixes what is near one.\<close>

lemma rhe_err: "\<bar>of_int (round_half_even y) - y\<bar> \<le> 1 / 2"
proof -
  have "of_int \<lfloor>y\<rfloor> \<le> y" "y < of_int \<lfloor>y\<rfloor> + 1" by linarith+
  then show ?thesis
    unfolding round_half_even_def Let_def by (simp split: if_splits; linarith)
qed

lemma rhe_near: "\<bar>y - of_int n\<bar> < 1 / 2 \<Longrightarrow> round_half_even y = n"
proof -
  assume a: "\<bar>y - of_int n\<bar> < 1 / 2"
  have f: "of_int \<lfloor>y\<rfloor> \<le> y" "y < of_int \<lfloor>y\<rfloor> + 1" by linarith+
  have "\<lfloor>y\<rfloor> = n \<or> \<lfloor>y\<rfloor> = n - 1"
  proof -
    have "of_int n - 1 < y" "y < of_int n + 1" using a by linarith+
    then have "n - 1 \<le> \<lfloor>y\<rfloor>" "\<lfloor>y\<rfloor> < n + 1" by (simp_all add: le_floor_iff floor_less_iff floor_le_iff)
    then show ?thesis by linarith
  qed
  then show ?thesis
  proof
    assume e: "\<lfloor>y\<rfloor> = n"
    have "y - of_int n < 1 / 2" using a by linarith
    then have "y - of_int \<lfloor>y\<rfloor> < 1 / 2" using e by simp
    then show ?thesis unfolding round_half_even_def Let_def using e by simp
  next
    assume e: "\<lfloor>y\<rfloor> = n - 1"
    have "1 / 2 < y - (of_int n - 1)" using a by linarith
    then have "1 / 2 < y - of_int \<lfloor>y\<rfloor>" using e by simp
    then show ?thesis unfolding round_half_even_def Let_def using e by simp
  qed
qed

text \<open>The relative error of \<open>fl\<close> is at most \<open>2 powi (- 53)\<close>.\<close>

lemma binary_exponent_le: "x \<noteq> 0 \<Longrightarrow> 2 powi (binary_exponent x) \<le> \<bar>x\<bar>"
proof -
  assume x: "x \<noteq> 0"
  obtain p q where pq: "quotient_of \<bar>x\<bar> = (p, q)" by (cases "quotient_of \<bar>x\<bar>")
  have q: "0 < q" using pq quotient_of_denom_pos by blast
  have xe: "\<bar>x\<bar> = of_int p / of_int q" using pq quotient_of_div by blast
  have p: "0 < p" using x xe q
    by (metis of_int_0_less_iff zero_less_abs_iff zero_less_divide_iff of_int_less_0_iff not_less_iff_gr_or_eq)
  have bp: "(2::int) ^ nat (bitlen p - 1) \<le> p" using bitlen_bounds[OF p] by simp
  have bq: "q < (2::int) ^ nat (bitlen q)" using bitlen_bounds[OF q] by simp
  have bp1: "1 \<le> bitlen p" using p by (auto simp: bitlen_alt_def)
  have bq0: "0 \<le> bitlen q" by (rule bitlen_nonneg)
  have bp': "(2::rat) powi (bitlen p - 1) \<le> of_int p"
  proof -
    have "(of_int ((2::int) ^ nat (bitlen p - 1)) :: rat) \<le> of_int p" using bp of_int_le_iff by blast
    then show ?thesis using bp1 by (simp add: power_int_def)
  qed
  have bq': "(of_int q :: rat) \<le> 2 powi (bitlen q)"
  proof -
    have "(of_int q :: rat) \<le> of_int ((2::int) ^ nat (bitlen q))" using bq of_int_le_iff
      by (metis less_le_not_le)
    then show ?thesis using bq0 by (simp add: power_int_def)
  qed
  have low: "(2::rat) powi (bitlen p - bitlen q - 1) \<le> \<bar>x\<bar>"
  proof -
    have "(2::rat) powi (bitlen p - bitlen q - 1) = 2 powi (bitlen p - 1) / 2 powi (bitlen q)"
      by (simp add: power_int_diff)
    also have "\<dots> \<le> of_int p / 2 powi (bitlen q)"
      using bp' by (simp add: divide_right_mono)
    also have "\<dots> \<le> of_int p / of_int q"
      using bq' p q by (simp add: divide_left_mono)
    finally show ?thesis using xe by simp
  qed
  show ?thesis
    unfolding binary_exponent_def pq Let_def using low by simp
qed

lemma fl_error: "\<bar>fl x - x\<bar> \<le> \<bar>x\<bar> / 2 ^ 53"
proof (cases "x = 0")
  case True
  then show ?thesis by (simp add: fl_def)
next
  case False
  define u :: rat where "u = 2 powi (binary_exponent x - 52)"
  have u: "0 < u" by (simp add: u_def)
  have "fl x = of_int (round_half_even (x / u)) * u"
    using False by (simp add: fl_def u_def Let_def)
  then have "fl x - x = (of_int (round_half_even (x / u)) - x / u) * u"
    using u by (simp add: algebra_simps)
  then have "\<bar>fl x - x\<bar> = \<bar>of_int (round_half_even (x / u)) - x / u\<bar> * u"
    using u by (simp add: abs_mult)
  also have "\<dots> \<le> 1 / 2 * u"
    using rhe_err[of "x / u"] u by (simp add: mult_right_mono)
  also have "\<dots> = 2 powi (binary_exponent x) / 2 ^ 53"
    by (simp add: u_def power_int_diff)
  also have "\<dots> \<le> \<bar>x\<bar> / 2 ^ 53"
    using binary_exponent_le[OF False] by (simp add: divide_right_mono)
  finally show ?thesis .
qed

text \<open>
  Absolute errors, for operands below \<open>2 ^ 33\<close>: every operation of the weighted sum adds
  at most \<open>1 / 2 ^ 18\<close> to the error of its operands.
\<close>

lemma fl_close:
  assumes "\<bar>x - x0\<bar> \<le> eps" "\<bar>x0\<bar> \<le> 2 ^ 34" "eps \<le> 1"
  shows "\<bar>fl x - x0\<bar> \<le> eps + 1 / 2 ^ 18"
proof -
  have "\<bar>x\<bar> \<le> 2 ^ 35" using assms by simp
  then have "\<bar>x\<bar> / 2 ^ 53 \<le> 2 ^ 35 / 2 ^ 53" by (simp add: divide_right_mono)
  then have "\<bar>fl x - x\<bar> \<le> 1 / 2 ^ 18" using fl_error[of x] by simp
  then show ?thesis using assms(1) by linarith
qed

lemma near_bound:
  assumes "\<bar>a - a0\<bar> \<le> 1 / 2 ^ 18" "\<bar>a0\<bar> \<le> 2 ^ 33"
  shows "\<bar>a::rat\<bar> \<le> 2 ^ 34"
proof -
  have "\<bar>a\<bar> \<le> \<bar>a - a0\<bar> + \<bar>a0\<bar>" by linarith
  moreover have "(1::rat) / 2 ^ 18 \<le> 2 ^ 33" by simp
  then have "\<bar>a - a0\<bar> + \<bar>a0\<bar> \<le> 2 ^ 33 + 2 ^ 33" using assms by linarith
  moreover have "(2::rat) ^ 33 + 2 ^ 33 = 2 ^ 34" by simp
  ultimately show ?thesis by linarith
qed

lemma mul_close:
  assumes a: "\<bar>a - a0\<bar> \<le> 1 / 2 ^ 18" and a0: "\<bar>a0\<bar> \<le> 2 ^ 33"
    and c0: "0 \<le> c0" "c0 \<le> 1 / 2"
  shows "\<bar>fmul a (fl c0) - a0 * c0\<bar> \<le> 2 / 2 ^ 18"
proof -
  have "\<bar>fl c0 - c0\<bar> \<le> \<bar>c0\<bar> / 2 ^ 53" by (rule fl_error)
  then have c: "\<bar>fl c0 - c0\<bar> \<le> 1 / 2 ^ 54" using c0 by simp
  have aa: "\<bar>a\<bar> \<le> 2 ^ 34" using a a0 by (rule near_bound)
  have "\<bar>a * (fl c0 - c0)\<bar> \<le> 2 ^ 34 * (1 / 2 ^ 54)"
    unfolding abs_mult using aa c by (intro mult_mono) simp_all
  then have t1: "\<bar>a * (fl c0 - c0)\<bar> \<le> 1 / 2 ^ 20" by simp
  have "\<bar>(a - a0) * c0\<bar> \<le> 1 / 2 ^ 18 * (1 / 2)"
    unfolding abs_mult using a c0 by (intro mult_mono) simp_all
  then have t2: "\<bar>(a - a0) * c0\<bar> \<le> 1 / 2 ^ 19" by simp
  have "a * fl c0 - a0 * c0 = a * (fl c0 - c0) + (a - a0) * c0" by (simp add: algebra_simps)
  then have "\<bar>a * fl c0 - a0 * c0\<bar> \<le> \<bar>a * (fl c0 - c0)\<bar> + \<bar>(a - a0) * c0\<bar>"
    by (simp only: abs_triangle_ineq)
  also have "\<dots> \<le> 1 / 2 ^ 20 + 1 / 2 ^ 19" using t1 t2 by (rule add_mono)
  also have "\<dots> \<le> 1 / 2 ^ 18" by simp
  finally have d: "\<bar>a * fl c0 - a0 * c0\<bar> \<le> 1 / 2 ^ 18" .
  have "\<bar>a0 * c0\<bar> \<le> 2 ^ 33 * (1 / 2)"
    unfolding abs_mult using a0 c0 by (intro mult_mono) simp_all
  then have m: "\<bar>a0 * c0\<bar> \<le> 2 ^ 34" by simp
  show ?thesis unfolding fmul_def using fl_close[OF d m] by simp
qed

lemma int_to_float_close:
  assumes "\<bar>n\<bar> \<le> 2 ^ 33"
  shows "int_to_float n = Inr (fl (of_int n))" and "\<bar>fl (of_int n) - of_int n\<bar> \<le> 1 / 2 ^ 18"
proof -
  have n: "\<bar>of_int n :: rat\<bar> \<le> 2 ^ 33"
    using assms by (metis of_int_abs of_int_le_iff of_int_numeral of_int_power)
  then have n34: "\<bar>of_int n :: rat\<bar> \<le> 2 ^ 34" by simp
  show c: "\<bar>fl (of_int n) - of_int n\<bar> \<le> 1 / 2 ^ 18"
    using fl_close[of "of_int n" "of_int n" 0, OF _ n34] by simp
  have "\<bar>fl (of_int n)\<bar> \<le> 2 ^ 34" using c n by (rule near_bound)
  moreover have "(2::rat) ^ 34 < 2 ^ 1024" by (rule power_strict_increasing) simp_all
  ultimately have "\<not> 2 ^ 1024 \<le> \<bar>fl (of_int n)\<bar>" by linarith
  then show "int_to_float n = Inr (fl (of_int n))" by (simp add: int_to_float_def Let_def)
qed

lemma weighted_sum_close:
  assumes u: "\<bar>u\<bar> \<le> 2 ^ 33" and i: "\<bar>i\<bar> \<le> 2 ^ 33" and e: "\<bar>e\<bar> \<le> 2 ^ 33"
    and k: "0 \<le> k" "k \<le> 10"
  shows "\<exists>s. weighted_sum u i (of_int k) e = Inr s
            \<and> \<bar>s - of_int (4 * u + 3 * i + 2 * k + e) / 10\<bar> \<le> 11 / 2 ^ 18"
proof -
  have ur: "\<bar>of_int u :: rat\<bar> \<le> 2 ^ 33"
    using u by (metis of_int_abs of_int_le_iff of_int_numeral of_int_power)
  have ir: "\<bar>of_int i :: rat\<bar> \<le> 2 ^ 33"
    using i by (metis of_int_abs of_int_le_iff of_int_numeral of_int_power)
  have er: "\<bar>of_int e :: rat\<bar> \<le> 2 ^ 33"
    using e by (metis of_int_abs of_int_le_iff of_int_numeral of_int_power)
  have kr: "0 \<le> (of_int k :: rat)" "(of_int k :: rat) \<le> 10" using k by simp_all
  then have kr': "\<bar>of_int k :: rat\<bar> \<le> 2 ^ 33" by simp
  define p1 where "p1 = fmul (fl (of_int u)) URGENCY_WEIGHT"
  define p2 where "p2 = fmul (fl (of_int i)) IMPORTANCE_WEIGHT"
  define p3 where "p3 = fmul (of_int k) DEADLINE_WEIGHT"
  define p4 where "p4 = fmul (fl (of_int e)) EFFORT_WEIGHT"
  have c1: "\<bar>p1 - of_int u * (4 / 10)\<bar> \<le> 2 / 2 ^ 18"
    unfolding p1_def URGENCY_WEIGHT_def
    by (rule mul_close[OF int_to_float_close(2)[OF u] ur]) simp_all
  have c2: "\<bar>p2 - of_int i * (3 / 10)\<bar> \<le> 2 / 2 ^ 18"
    unfolding p2_def IMPORTANCE_WEIGHT_def
    by (rule mul_close[OF int_to_float_close(2)[OF i] ir]) simp_all
  have c3: "\<bar>p3 - of_int k * (2 / 10)\<bar> \<le> 2 / 2 ^ 18"
    unfolding p3_def DEADLINE_WEIGHT_def
    by (rule mul_close[OF _ kr']) simp_all
  have c4: "\<bar>p4 - of_int e * (1 / 10)\<bar> \<le> 2 / 2 ^ 18"
    unfolding p4_def EFFORT_WEIGHT_def
    by (rule mul_close[OF int_to_float_close(2)[OF e] er]) simp_all
  define s1 where "s1 = fadd p1 p2"
  define s2 where "s2 = fadd s1 p3"
  define s3 where "s3 = fadd s2 p4"
  have d1: "\<bar>s1 - (of_int u * (4 / 10) + of_int i * (3 / 10))\<bar> \<le> 5 / 2 ^ 18"
  proof -
    have "\<bar>(p1 + p2) - (of_int u * (4 / 10) + of_int i * (3 / 10))\<bar> \<le> 4 / 2 ^ 18"
      using c1 c2 by linarith
    moreover have "\<bar>of_int u * (4 / 10) + of_int i * (3 / 10) :: rat\<bar> \<le> 2 ^ 34"
      using ur ir by simp
    ultimately show ?thesis
      unfolding s1_def fadd_def using fl_close by fastforce
  qed
  have d2: "\<bar>s2 - (of_int u * (4 / 10) + of_int i * (3 / 10) + of_int k * (2 / 10))\<bar> \<le> 8 / 2 ^ 18"
  proof -
    have "\<bar>(s1 + p3) - (of_int u * (4 / 10) + of_int i * (3 / 10) + of_int k * (2 / 10))\<bar> \<le> 7 / 2 ^ 18"
      using d1 c3 by linarith
    moreover have "\<bar>of_int u * (4 / 10) + of_int i * (3 / 10) + of_int k * (2 / 10) :: rat\<bar> \<le> 2 ^ 34"
      using ur ir kr by simp
    ultimately show ?thesis
      unfolding s2_def fadd_def using fl_close by fastforce
  qed
  have d3: "\<bar>s3 - (of_int u * (4 / 10) + of_int i * (3 / 10) + of_int k * (2 / 10) + of_int e * (1 / 10))\<bar> \<le> 11 / 2 ^ 18"
  proof -
    have "\<bar>(s2 + p4) - (of_int u * (4 / 10) + of_int i * (3 / 10) + of_int k * (2 / 10) + of_int e * (1 / 10))\<bar> \<le> 10 / 2 ^ 18"
      using d2 c4 by linarith
    moreover have "\<bar>of_int u * (4 / 10) + of_int i * (3 / 10) + of_int k * (2 / 10) + of_int e * (1 / 10) :: rat\<bar> \<le> 2 ^ 34"
      using ur ir kr er by simp
    ultimately show ?thesis
      unfolding s3_def fadd_def using fl_close by fastforce
  qed
  have "(of_int u * (4 / 10) + of_int i * (3 / 10) + of_int k * (2 / 10) + of_int e * (1 / 10) :: rat)
        = of_int (4 * u + 3 * i + 2 * k + e) / 10" by simp
  then have "\<bar>s3 - of_int (4 * u + 3 * i + 2 * k + e) / 10\<bar> \<le> 11 / 2 ^ 18"
    using d3 by (simp only:)
  moreover have "weighted_sum u i (of_int k) e = Inr s3"
    unfolding weighted_sum_def s3_def s2_def s1_def p1_def p2_def p3_def p4_def
    by (simp add: int_to_float_close(1)[OF u] int_to_float_close(1)[OF i] int_to_float_close(1)[OF e])
  ultimately show ?thesis by blast
qed

lemma py_round2_close:
  assumes "\<bar>s - of_int n / 10\<bar> \<le> 11 / 2 ^ 18"
  shows "py_round2 s = fl (of_int n / 10)"
proof -
  have "s * 100 - of_int (10 * n) = 100 * (s - of_int n / 10)" by simp
  then have "\<bar>s * 100 - of_int (10 * n)\<bar> = 100 * \<bar>s - of_int n / 10\<bar>"
    by (simp only: abs_mult abs_numeral)
  also have "\<dots> \<le> 100 * (11 / 2 ^ 18)" using assms by simp
  also have "\<dots> < 1 / 2" by simp
  finally have "round_half_even (s * 100) = 10 * n" by (rule rhe_near)
  then show ?thesis by (simp add: py_round2_def)
qed

section \<open>The score of a task\<close>

text \<open>The deadline factor is one of the whole numbers from 0 to 10.\<close>

lemma deadline_factor_range:
  "\<exists>k. fst (calculate_deadline_factor strptime now s) = of_int k \<and> 0 \<le> k \<and> k \<le> 10"
proof (cases "strptime s")
  case None
  then have "fst (calculate_deadline_factor strptime now s) = of_int 5"
    by (simp add: calculate_deadline_factor_def)
  then show ?thesis by (intro exI[of _ 5]) simp
next
  case (Some d)
  define n where "n = timedelta_days (midnight d - now)"
  have f: "fst (calculate_deadline_factor strptime now s) =
      of_int (if n < 0 then 10 else if n = 0 then 10 else if n = 1 then 9 else if n \<le> 3 then 8
              else if n \<le> 7 then 6 else if n \<le> 14 then 4 else if n \<le> 30 then 2 else 1)"
    using Some by (simp add: calculate_deadline_factor_def Let_def n_def)
  show ?thesis
    by (rule exI[of _ "if n < 0 then 10 else if n = 0 then 10 else if n = 1 then 9 else if n \<le> 3 then 8
              else if n \<le> 7 then 6 else if n \<le> 14 then 4 else if n \<le> 30 then 2 else 1"])
       (simp add: f)
qed

lemma round_half_even_of_int: "round_half_even (of_int n) = n"
  by (rule rhe_near) simp

lemma round_2dp_tenths: "round_2dp (of_int n / 10) = of_int n / 10"
proof -
  have "(of_int n / 10 * 100 :: rat) = of_int (10 * n)" by simp
  then have "round_half_even (of_int n / 10 * 100) = 10 * n"
    by (simp only: round_half_even_of_int)
  then show ?thesis by (simp add: round_2dp_def)
qed

lemma score_formula_tenths:
  "score_formula u i (of_int k) e = of_int (4 * u + 3 * i + 2 * k + e) / 10"
  by (simp add: score_formula_def)

lemma calculate_task_score_exact:
  assumes "\<bar>urgency t\<bar> \<le> 2 ^ 32" "\<bar>importance t\<bar> \<le> 2 ^ 32" "\<bar>effort t\<bar> \<le> 2 ^ 32"
  shows "calculate_task_score strptime now t =
           (Inr (fl (round_2dp (score_formula (urgency t) (importance t)
                     (fst (calculate_deadline_factor strptime now (deadline t)))
                     (calculate_effort_efficiency (effort t))))),
            snd (calculate_deadline_factor strptime now (deadline t)))"
proof -
  obtain k where k: "fst (calculate_deadline_factor strptime now (deadline t)) = of_int k"
    "0 \<le> k" "k \<le> 10"
    using deadline_factor_range by blast
  have u: "\<bar>urgency t\<bar> \<le> 2 ^ 33" using assms(1) by simp
  have i: "\<bar>importance t\<bar> \<le> 2 ^ 33" using assms(2) by simp
  have e: "\<bar>calculate_effort_efficiency (effort t)\<bar> \<le> 2 ^ 33"
    using assms(3) by (simp add: calculate_effort_efficiency_def)
  obtain s where s: "weighted_sum (urgency t) (importance t) (of_int k)
        (calculate_effort_efficiency (effort t)) = Inr s"
    "\<bar>s - of_int (4 * urgency t + 3 * importance t + 2 * k
          + calculate_effort_efficiency (effort t)) / 10\<bar> \<le> 11 / 2 ^ 18"
    using weighted_sum_close[OF u i e k(2,3)] by blast
  have "py_round2 s = fl (of_int (4 * urgency t + 3 * importance t + 2 * k
          + calculate_effort_efficiency (effort t)) / 10)"
    using s(2) by (rule py_round2_close)
  also have "\<dots> = fl (round_2dp (score_formula (urgency t) (importance t) (of_int k)
                     (calculate_effort_efficiency (effort t))))"
    by (simp only: score_formula_tenths round_2dp_tenths)
  finally have r: "py_round2 s = fl (round_2dp (score_formula (urgency t) (importance t) (of_int k)
                     (calculate_effort_efficiency (effort t))))" .
  show ?thesis
    unfolding calculate_task_score_def
    by (simp add: case_prod_unfold Let_def k(1) s(1) r)
qed

lemma due_today_factor:
  assumes "strptime s = Some (date_of now)"
  shows "calculate_deadline_factor strptime now s = (10, [])"
proof -
  have "midnight (date_of now) - now = - (now mod us_per_day)"
    by (simp add: midnight_def date_of_def minus_mod_eq_div_mult [symmetric])
  moreover have "0 \<le> now mod us_per_day" "now mod us_per_day < us_per_day"
    by (simp_all add: us_per_day_def)
  ultimately have "timedelta_days (midnight (date_of now) - now) \<le> 0"
    unfolding timedelta_days_def by (intro div_nonpos_pos_le0) simp_all
  then show ?thesis using assms by (auto simp add: calculate_deadline_factor_def Let_def)
qed

text \<open>The float that Python prints as 9.9.\<close>

lemma double_nearest_9_9: "fl (99 / 10) = 5573204538870989 / 562949953421312"
  by code_simp

text \<open>
  Claim C1. For every task whose urgency, importance and effort are at most \<open>2 ^ 32\<close> in
  absolute value (the nominal domain is 1 to 10), \<open>calculate_task_score\<close> returns the
  float nearest to \<open>urgency * 0.4 + importance * 0.3 + deadline_factor * 0.2 +
  effort_efficiency * 0.1\<close> rounded to two decimal places, where the deadline factor
  and the effort efficiency are those of \<open>calculate_deadline_factor\<close> and
  \<open>calculate_effort_efficiency\<close>: the rounding errors of the float operations are
  removed by \<^verbatim>\<open>round(score, 2)\<close>. In particular a task with urgency 10, importance 10 and
  effort 1 whose deadline is the date of the evaluation has deadline factor 10 and
  effort efficiency 9, and its score is the float nearest to 9.9.
\<close>

theorem calculate_task_score_weighted_formula:
  assumes "\<bar>urgency t\<bar> \<le> 2 ^ 32" "\<bar>importance t\<bar> \<le> 2 ^ 32" "\<bar>effort t\<bar> \<le> 2 ^ 32"
  shows "fst (calculate_task_score strptime now t) =
           Inr (fl (round_2dp (score_formula (urgency t) (importance t)
                     (fst (calculate_deadline_factor strptime now (deadline t)))
                     (calculate_effort_efficiency (effort t)))))
         \<and> (urgency t = 10 \<and> importance t = 10 \<and> effort t = 1
              \<and> strptime (deadline t) = Some (date_of now)
            \<longrightarrow> fst (calculate_deadline_factor strptime now (deadline t)) = 10
                \<and> calculate_effort_efficiency (effort t) = 9
                \<and> calculate_task_score strptime now t = (Inr (fl (99 / 10)), []))"
proof (intro conjI impI)
  show g: "fst (calculate_task_score strptime now t) =
           Inr (fl (round_2dp (score_formula (urgency t) (importance t)
                     (fst (calculate_deadline_factor strptime now (deadline t)))
                     (calculate_effort_efficiency (effort t)))))"
    by (simp add: calculate_task_score_exact[OF assms])
  assume a: "urgency t = 10 \<and> importance t = 10 \<and> effort t = 1
              \<and> strptime (deadline t) = Some (date_of now)"
  then have d: "calculate_deadline_factor strptime now (deadline t) = (10, [])"
    by (simp add: due_today_factor)
  then show "fst (calculate_deadline_factor strptime now (deadline t)) = 10" by simp
  show "calculate_effort_efficiency (effort t) = 9"
    using a by (simp add: calculate_effort_efficiency_def)
  have sf: "score_formula 10 10 10 9 = 99 / 10"
    by (simp add: score_formula_def)
  have "round_2dp (99 / 10) = 99 / 10"
    using round_2dp_tenths[of 99] by simp
  then have r: "round_2dp (score_formula 10 10 10 9) = 99 / 10"
    by (simp only: sf)
  have "calculate_task_score strptime now t
        = (Inr (fl (round_2dp (score_formula 10 10 10 9))), [])"
    using a d by (simp add: calculate_task_score_exact[OF assms] calculate_effort_efficiency_def)
  then show "calculate_task_score strptime now t = (Inr (fl (99 / 10)), [])"
    by (simp only: r)
qed

theorem calculate_task_score_weighted_formula_witness:
  "\<bar>urgency outage_task\<bar> \<le> 2 ^ 32 \<and> \<bar>importance outage_task\<bar> \<le> 2 ^ 32
   \<and> \<bar>effort outage_task\<bar> \<le> 2 ^ 32
   \<and> urgency outage_task = 10 \<and> importance outage_task = 10 \<and> effort outage_task = 1
   \<and> iso_date (deadline outage_task) = Some (date_of (datetime 738886 12 0 0))
   \<and> calculate_task_score iso_date (datetime 738886 12 0 0) outage_task
       = (Inr (5573204538870989 / 562949953421312), [])"
proof -
  have b: "\<bar>urgency outage_task\<bar> \<le> 2 ^ 32" "\<bar>importance outage_task\<bar> \<le> 2 ^ 32"
    "\<bar>effort outage_task\<bar> \<le> 2 ^ 32"
    by (simp_all add: outage_task_def)
  have v: "urgency outage_task = 10 \<and> importance outage_task = 10 \<and> effort outage_task = 1"
    by (simp add: outage_task_def)
  have p: "iso_date (deadline outage_task) = Some (date_of (datetime 738886 12 0 0))"
    by code_simp
  show ?thesis
    using calculate_task_score_weighted_formula[OF b, of iso_date "datetime 738886 12 0 0"] b v p
    by (simp add: double_nearest_9_9)
qed

section \<open>The deadline factor\<close>

text \<open>
  The days that the program counts are the difference of the two dates, less one day
  unless the evaluation happens at midnight to the microsecond: the time of day of
  \<^verbatim>\<open>datetime.now()\<close> is part of the subtraction, and \<^verbatim>\<open>.days\<close> rounds down.
\<close>

lemma neg_remainder_div:
  assumes "0 \<le> r" "r < us_per_day"
  shows "(- r) div us_per_day = (if r = 0 then 0 else - 1)"
proof (cases "r = 0")
  case True
  then show ?thesis by simp
next
  case False
  have D: "0 < us_per_day" by (simp add: us_per_day_def)
  have "(- r) div us_per_day < 0" using False assms D by (simp add: div_neg_pos_less0)
  moreover have "(- us_per_day) div us_per_day \<le> (- r) div us_per_day"
    using assms D by (intro zdiv_mono1) simp_all
  moreover have "(- us_per_day) div us_per_day = - 1" by (simp add: us_per_day_def)
  ultimately show ?thesis using False by simp
qed

lemma days_until_by_dates:
  "timedelta_days (midnight d - now)
     = d - date_of now - (if time_of_day now = 0 then 0 else 1)"
proof -
  have D: "0 < us_per_day" by (simp add: us_per_day_def)
  have "midnight d - now = (d - date_of now) * us_per_day + (- (now mod us_per_day))"
    by (simp add: midnight_def date_of_def algebra_simps minus_mod_eq_mult_div [symmetric])
  moreover have "((d - date_of now) * us_per_day + (- (now mod us_per_day))) div us_per_day
      = (d - date_of now) + (- (now mod us_per_day)) div us_per_day"
    using D by (intro div_mult_self3) simp
  ultimately have "timedelta_days (midnight d - now)
      = (d - date_of now) + (- (now mod us_per_day)) div us_per_day"
    by (simp only: timedelta_days_def)
  moreover have "(- (now mod us_per_day)) div us_per_day = (if now mod us_per_day = 0 then 0 else - 1)"
    using D by (intro neg_remainder_div) simp_all
  ultimately show ?thesis by (simp add: time_of_day_def)
qed

lemma calculate_deadline_factor_table:
  assumes "strptime s = Some d"
  shows "calculate_deadline_factor strptime now s
           = (deadline_table (d - date_of now - (if time_of_day now = 0 then 0 else 1)), [])"
  using assms
  by (simp add: calculate_deadline_factor_def Let_def days_until_by_dates deadline_table_def)

text \<open>
  Claim C2. The claim reads the lookup table at the difference of the two dates, with the
  time of day of the evaluation ignored. The program does not: at noon of 2024-01-01 a
  deadline of 2024-01-02, one day ahead, for which the table gives 9, gets the factor 10
  of the branch that the source comments as due today.
\<close>

theorem deadline_tomorrow_at_noon:
  "iso_date ''2024-01-02'' = Some 738887
   \<and> date_of (datetime 738886 12 0 0) = 738886
   \<and> deadline_table (738887 - date_of (datetime 738886 12 0 0)) = 9
   \<and> calculate_deadline_factor iso_date (datetime 738886 12 0 0) ''2024-01-02'' = (10, [])"
  by code_simp





section \<open>Effort efficiency\<close>

text \<open>
  Claim C9. For every integer \<open>e\<close>, inside the nominal domain 1 to 10 or not,
  \<open>calculate_effort_efficiency e\<close> is \<open>10 - e\<close>, so that it adds up to 10 with \<open>e\<close>.
  Nothing is clamped: the result is negative exactly for an effort above 10, and above 9
  exactly for an effort below 1.
\<close>

theorem calculate_effort_efficiency_inverts:
  "calculate_effort_efficiency e = 10 - e
   \<and> calculate_effort_efficiency e + e = 10
   \<and> (calculate_effort_efficiency e < 0) = (10 < e)
   \<and> (9 < calculate_effort_efficiency e) = (e < 1)"
  by (auto simp add: calculate_effort_efficiency_def)

section \<open>Statistics\<close>

lemma fdiv_length_ok: "xs \<noteq> [] \<Longrightarrow> fdiv x (of_nat (length xs)) = Inr (fl (x / of_nat (length xs)))"
  by (simp add: fdiv_def)

lemma int_truediv_not_zero_division: "b \<noteq> 0 \<Longrightarrow> int_truediv a b \<noteq> Inl ZeroDivisionError"
  by (simp add: int_truediv_def Let_def)

text \<open>
  Claim C6. On an empty task collection \<open>get_statistics\<close> returns the distinct result
  \<open>No_data\<close> (the dict with the key \<^verbatim>\<open>"error"\<close>), and on no collection does it raise
  \<^verbatim>\<open>ZeroDivisionError\<close>: both means are only taken of a non-empty list.
\<close>

theorem get_statistics_empty_no_data:
  "get_statistics float_sum (w\<lparr>tasks := []\<rparr>) = Inr (No_data ''No tasks to analyze'')
   \<and> get_statistics float_sum w' \<noteq> Inl ZeroDivisionError"
proof
  show "get_statistics float_sum (w\<lparr>tasks := []\<rparr>) = Inr (No_data ''No tasks to analyze'')"
    by (simp add: get_statistics_def)
  show "get_statistics float_sum w' \<noteq> Inl ZeroDivisionError"
  proof (cases "tasks w' = []")
    case True
    then show ?thesis by (simp add: get_statistics_def)
  next
    case False
    then have "int_truediv (sum_list (map (\<lambda>task. urgency (heap w' task)) (tasks w'))) (int (length (tasks w')))
               \<noteq> Inl ZeroDivisionError"
      by (intro int_truediv_not_zero_division) simp
    then show ?thesis
      using False by (auto simp add: get_statistics_def Let_def fdiv_def split: sum.splits)
  qed
qed

text \<open>A scorer that has loaded nothing prints the error when asked for its statistics.\<close>

lemma display_statistics_new_scorer:
  "display_statistics float_sum new_scorer
     = (None, new_scorer\<lparr>stdout := [Statistics_error ''No tasks to analyze'']\<rparr>)"
  by (simp add: display_statistics_def get_statistics_def new_scorer_def print_def)

text \<open>A non-empty collection has statistics, unless the mean urgency is too large for a float.\<close>

lemma get_statistics_nonempty:
  assumes "tasks w \<noteq> []"
  shows "get_statistics float_sum w = Inl OverflowError
         \<or> (\<exists>s. get_statistics float_sum w = Inr (Stats s))"
  using assms
  by (auto simp add: get_statistics_def Let_def fdiv_def int_truediv_def split: sum.splits)

lemma bucket_partition:
  "mset (filter (\<lambda>t. (7::rat) \<le> f t) xs) + mset (filter (\<lambda>t. 4 \<le> f t \<and> f t < 7) xs)
     + mset (filter (\<lambda>t. f t < 4) xs) = mset xs"
  by (induction xs) auto

lemma bucket_counts:
  "length (filter (\<lambda>t. (7::rat) \<le> f t) xs) + length (filter (\<lambda>t. 4 \<le> f t \<and> f t < 7) xs)
     + length (filter (\<lambda>t. f t < 4) xs) = length xs"
  by (induction xs) auto

text \<open>Whatever statistics are returned, their buckets split the collection.\<close>

lemma statistics_buckets_of_result:
  assumes "get_statistics float_sum w = Inr (Stats s)"
  shows "tasks w \<noteq> []
         \<and> total_tasks s = length (tasks w)
         \<and> high_priority_tasks s + medium_priority_tasks s + low_priority_tasks s = total_tasks s
         \<and> high_priority_tasks s = length (filter (\<lambda>t. 7 \<le> score (heap w t)) (tasks w))
         \<and> medium_priority_tasks s
             = length (filter (\<lambda>t. 4 \<le> score (heap w t) \<and> score (heap w t) < 7) (tasks w))
         \<and> low_priority_tasks s = length (filter (\<lambda>t. score (heap w t) < 4) (tasks w))
         \<and> mset (filter (\<lambda>t. 7 \<le> score (heap w t)) (tasks w))
             + mset (filter (\<lambda>t. 4 \<le> score (heap w t) \<and> score (heap w t) < 7) (tasks w))
             + mset (filter (\<lambda>t. score (heap w t) < 4) (tasks w)) = mset (tasks w)"
proof -
  have ne: "tasks w \<noteq> []" using assms by (auto simp add: get_statistics_def)
  from assms ne obtain a b where
    s: "s = \<lparr>total_tasks = length (tasks w), average_score = a,
             highest_score = Max (set (map (\<lambda>task. score (heap w task)) (tasks w))),
             lowest_score = Min (set (map (\<lambda>task. score (heap w task)) (tasks w))),
             average_urgency = b,
             high_priority_tasks = length (filter (\<lambda>t. score (heap w t) \<ge> 7) (tasks w)),
             medium_priority_tasks =
               length (filter (\<lambda>t. 4 \<le> score (heap w t) \<and> score (heap w t) < 7) (tasks w)),
             low_priority_tasks = length (filter (\<lambda>t. score (heap w t) < 4) (tasks w))\<rparr>"
    by (auto simp add: get_statistics_def Let_def split: sum.splits)
  show ?thesis
    using ne bucket_counts[of "\<lambda>t. score (heap w t)" "tasks w"]
      bucket_partition[of "\<lambda>t. score (heap w t)" "tasks w"]
    by (simp add: s)
qed

text \<open>
  The mean of urgencies that are at most \<open>2 ^ 32\<close> in absolute value fits a float, so the
  statistics of such a collection raise no \<^verbatim>\<open>OverflowError\<close>.
\<close>

lemma sum_list_abs_bound:
  "list_all (\<lambda>x. \<bar>x\<bar> \<le> B) xs \<Longrightarrow> \<bar>sum_list xs\<bar> \<le> int (length xs) * (B::int)"
proof (induction xs)
  case Nil
  then show ?case by simp
next
  case (Cons x xs)
  then have "\<bar>x\<bar> \<le> B" "\<bar>sum_list xs\<bar> \<le> int (length xs) * B" by simp_all
  then have "\<bar>x + sum_list xs\<bar> \<le> B + int (length xs) * B" by linarith
  then show ?case by (simp add: algebra_simps)
qed

lemma mean_urgency_fits:
  assumes "xs \<noteq> []" and "list_all (\<lambda>x. \<bar>x\<bar> \<le> 2 ^ 32) xs"
  shows "int_truediv (sum_list xs) (int (length xs))
           = Inr (fl (of_int (sum_list xs) / of_int (int (length xs))))"
proof -
  define n where "n = int (length xs)"
  have n: "0 < n" using assms(1) by (simp add: n_def)
  have "\<bar>sum_list xs\<bar> \<le> n * 2 ^ 32"
    unfolding n_def using assms(2) by (rule sum_list_abs_bound)
  then have "(of_int \<bar>sum_list xs\<bar> :: rat) \<le> of_int (n * 2 ^ 32)"
    by (simp only: of_int_le_iff)
  then have "\<bar>of_int (sum_list xs) :: rat\<bar> \<le> of_int n * 2 ^ 32" by simp
  then have "\<bar>of_int (sum_list xs) :: rat\<bar> / of_int n \<le> 2 ^ 32"
    using n by (simp add: pos_divide_le_eq mult.commute)
  then have m: "\<bar>of_int (sum_list xs) / of_int n :: rat\<bar> \<le> 2 ^ 32"
    using n by simp
  then have m33: "\<bar>of_int (sum_list xs) / of_int n :: rat\<bar> \<le> 2 ^ 33"
    and m34: "\<bar>of_int (sum_list xs) / of_int n :: rat\<bar> \<le> 2 ^ 34" by simp_all
  have "\<bar>fl (of_int (sum_list xs) / of_int n) - of_int (sum_list xs) / of_int n\<bar> \<le> 1 / 2 ^ 18"
    using fl_close[of "of_int (sum_list xs) / of_int n" "of_int (sum_list xs) / of_int n" 0, OF _ m34]
    by simp
  then have "\<bar>fl (of_int (sum_list xs) / of_int n)\<bar> \<le> 2 ^ 34" using m33 by (rule near_bound)
  moreover have "(2::rat) ^ 34 < 2 ^ 1024" by (rule power_strict_increasing) simp_all
  ultimately have "\<not> 2 ^ 1024 \<le> \<bar>fl (of_int (sum_list xs) / of_int n)\<bar>" by linarith
  then show ?thesis using n by (simp add: int_truediv_def Let_def n_def)
qed

lemma get_statistics_no_overflow:
  assumes "tasks w \<noteq> []"
    and "list_all (\<lambda>t. \<bar>urgency (heap w t)\<bar> \<le> 2 ^ 32) (tasks w)"
  shows "get_statistics float_sum w \<noteq> Inl OverflowError"
proof -
  have ne: "map (\<lambda>task. urgency (heap w task)) (tasks w) \<noteq> []" using assms(1) by simp
  have b: "list_all (\<lambda>x. \<bar>x\<bar> \<le> 2 ^ 32) (map (\<lambda>task. urgency (heap w task)) (tasks w))"
    using assms(2) by (simp add: list_all_iff)
  show ?thesis
    using mean_urgency_fits[OF ne b] assms(1)
    by (simp add: get_statistics_def Let_def fdiv_def)
qed

text \<open>
  Claim C7. For every non-empty collection \<open>get_statistics\<close> returns statistics, unless
  the mean urgency does not fit a float and \<^verbatim>\<open>OverflowError\<close> is raised, which does not
  happen when the urgencies are at most \<open>2 ^ 32\<close> in absolute value. In the statistics
  the total is the number of stored tasks, the three bucket counts add up to the total,
  each count is the number of stored tasks in its bucket (score at least 7, score from 4
  up to but not including 7, score below 4), and the three buckets split the collection
  as a multiset: every task is in exactly one of them.
\<close>

theorem statistics_buckets_partition:
  assumes "tasks w \<noteq> []"
  shows "(get_statistics float_sum w = Inl OverflowError
          \<or> (\<exists>s. get_statistics float_sum w = Inr (Stats s)
               \<and> total_tasks s = length (tasks w)
               \<and> high_priority_tasks s + medium_priority_tasks s + low_priority_tasks s
                   = total_tasks s
               \<and> high_priority_tasks s
                   = length (filter (\<lambda>t. 7 \<le> score (heap w t)) (tasks w))
               \<and> medium_priority_tasks s
                   = length (filter (\<lambda>t. 4 \<le> score (heap w t) \<and> score (heap w t) < 7) (tasks w))
               \<and> low_priority_tasks s
                   = length (filter (\<lambda>t. score (heap w t) < 4) (tasks w))
               \<and> mset (filter (\<lambda>t. 7 \<le> score (heap w t)) (tasks w))
                   + mset (filter (\<lambda>t. 4 \<le> score (heap w t) \<and> score (heap w t) < 7) (tasks w))
                   + mset (filter (\<lambda>t. score (heap w t) < 4) (tasks w)) = mset (tasks w)))
         \<and> (list_all (\<lambda>t. \<bar>urgency (heap w t)\<bar> \<le> 2 ^ 32) (tasks w)
              \<longrightarrow> get_statistics float_sum w \<noteq> Inl OverflowError)"
proof (intro conjI impI)
  show "list_all (\<lambda>t. \<bar>urgency (heap w t)\<bar> \<le> 2 ^ 32) (tasks w)
        \<Longrightarrow> get_statistics float_sum w \<noteq> Inl OverflowError"
    using assms by (rule get_statistics_no_overflow)
  show "get_statistics float_sum w = Inl OverflowError
          \<or> (\<exists>s. get_statistics float_sum w = Inr (Stats s)
               \<and> total_tasks s = length (tasks w)
               \<and> high_priority_tasks s + medium_priority_tasks s + low_priority_tasks s
                   = total_tasks s
               \<and> high_priority_tasks s
                   = length (filter (\<lambda>t. 7 \<le> score (heap w t)) (tasks w))
               \<and> medium_priority_tasks s
                   = length (filter (\<lambda>t. 4 \<le> score (heap w t) \<and> score (heap w t) < 7) (tasks w))
               \<and> low_priority_tasks s
                   = length (filter (\<lambda>t. score (heap w t) < 4) (tasks w))
               \<and> mset (filter (\<lambda>t. 7 \<le> score (heap w t)) (tasks w))
                   + mset (filter (\<lambda>t. 4 \<le> score (heap w t) \<and> score (heap w t) < 7) (tasks w))
                   + mset (filter (\<lambda>t. score (heap w t) < 4) (tasks w)) = mset (tasks w))"
  proof (cases "get_statistics float_sum w = Inl OverflowError")
    case True
    then show ?thesis by simp
  next
    case False
    then obtain s where s: "get_statistics float_sum w = Inr (Stats s)"
      using get_statistics_nonempty[OF assms, of float_sum] by blast
    show ?thesis
      using statistics_buckets_of_result[OF s] s by blast
  qed
qed

theorem statistics_buckets_partition_witness:
  "tasks two_tasks \<noteq> []
   \<and> list_all (\<lambda>t. \<bar>urgency (heap two_tasks t)\<bar> \<le> 2 ^ 32) (tasks two_tasks)
   \<and> get_statistics naive_sum two_tasks
     = Inr (Stats \<lparr>total_tasks = 2, average_score = 11 / 2, highest_score = 8,
                   lowest_score = 3, average_urgency = 13 / 2, high_priority_tasks = 1,
                   medium_priority_tasks = 0, low_priority_tasks = 1\<rparr>)
   \<and> get_statistics naive_sum two_tasks \<noteq> Inl OverflowError
   \<and> (1::nat) + 0 + 1 = 2"
proof -
  have g: "get_statistics naive_sum two_tasks
     = Inr (Stats \<lparr>total_tasks = 2, average_score = 11 / 2, highest_score = 8,
                   lowest_score = 3, average_urgency = 13 / 2, high_priority_tasks = 1,
                   medium_priority_tasks = 0, low_priority_tasks = 1\<rparr>)"
    by code_simp
  have ne: "tasks two_tasks \<noteq> []" by (simp add: two_tasks_def)
  have b: "list_all (\<lambda>t. \<bar>urgency (heap two_tasks t)\<bar> \<le> 2 ^ 32) (tasks two_tasks)"
    by (simp add: two_tasks_def report_task_def outage_task_def)
  show ?thesis
    using statistics_buckets_partition[OF ne, of naive_sum] g ne b by simp
qed

section \<open>Ranking\<close>

lemma py_sorted_stable:
  "filter (\<lambda>a. key a = k) (py_sorted key r xs) = filter (\<lambda>a. key a = k) xs"
proof (cases r)
  case True
  have "filter (\<lambda>a. key a = k) (rev (sort_key key (rev xs)))
        = rev (filter (\<lambda>a. key a = k) (sort_key key (rev xs)))" by (simp add: rev_filter)
  also have "\<dots> = rev (filter (\<lambda>a. key a = k) (rev xs))" by (simp only: sort_key_stable)
  also have "\<dots> = filter (\<lambda>a. key a = k) xs" by (simp add: rev_filter)
  finally show ?thesis using True by (simp add: py_sorted_def)
next
  case False
  then show ?thesis by (simp add: py_sorted_def sort_key_stable)
qed

lemma py_sorted_mset: "mset (py_sorted key r xs) = mset xs"
  by (simp add: py_sorted_def)

lemma py_sorted_ascending: "sorted_wrt (\<lambda>a b. key a \<le> key b) (py_sorted key False xs)"
  using sorted_sort_key[of key xs] by (simp add: py_sorted_def sorted_map)

lemma py_sorted_descending: "sorted_wrt (\<lambda>a b. key b \<le> key a) (py_sorted key True xs)"
  using sorted_sort_key[of key "rev xs"] by (simp add: py_sorted_def sorted_map sorted_wrt_rev)

text \<open>
  Claim C8. \<open>get_sorted_tasks\<close> returns the tasks of the collection, each as often as it
  is stored, by descending score with \<open>reverse = True\<close> (the default of the source) and by
  ascending score with \<open>reverse = False\<close>; the sort is stable in both directions: the
  tasks of any one score \<open>k\<close> come in the order in which the collection holds them.
\<close>

theorem get_sorted_tasks_ranking:
  "sorted_wrt (\<lambda>a b. score (heap w b) \<le> score (heap w a)) (fst (get_sorted_tasks True w))
   \<and> sorted_wrt (\<lambda>a b. score (heap w a) \<le> score (heap w b)) (fst (get_sorted_tasks False w))
   \<and> mset (fst (get_sorted_tasks r w)) = mset (tasks w)
   \<and> filter (\<lambda>a. score (heap w a) = k) (fst (get_sorted_tasks r w))
       = filter (\<lambda>a. score (heap w a) = k) (tasks w)"
  unfolding get_sorted_tasks_def fst_conv
  using py_sorted_descending[of "\<lambda>t. score (heap w t)" "tasks w"]
    py_sorted_ascending[of "\<lambda>t. score (heap w t)" "tasks w"]
    py_sorted_stable[of "\<lambda>t. score (heap w t)" k r "tasks w"]
  by (simp add: py_sorted_mset)

section \<open>The top of the ranking\<close>

lemma length_py_sorted: "length (py_sorted key r xs) = length xs"
  by (simp add: py_sorted_def)

lemma displayed_tasks_zero:
  "displayed_tasks (Some 0) w = fst (get_sorted_tasks True w)
   \<and> displayed_tasks None w = fst (get_sorted_tasks True w)"
  by (simp add: displayed_tasks_def)

text \<open>Every task among the first \<open>n\<close> of the ranking scores at least as high as every later one.\<close>

lemma top_outranks_rest:
  assumes "a \<in> set (take n (fst (get_sorted_tasks True w)))"
    and "b \<in> set (drop n (fst (get_sorted_tasks True w)))"
  shows "score (heap w b) \<le> score (heap w a)"
proof -
  have "sorted_wrt (\<lambda>a b. score (heap w b) \<le> score (heap w a))
          (take n (fst (get_sorted_tasks True w)) @ drop n (fst (get_sorted_tasks True w)))"
    using py_sorted_descending[of "\<lambda>t. score (heap w t)" "tasks w"]
    by (simp add: get_sorted_tasks_def)
  then show ?thesis using assms by (simp only: sorted_wrt_append)
qed

text \<open>
  Claim C3, amended. The tasks that \<open>display_results\<close> shows for a limit \<open>n \<ge> 1\<close> are the
  first \<open>n\<close> of the descending ranking, or all of them when there are fewer; so every
  limit that is at least the size of the collection shows the full ranking (a limit of
  3 on two tasks shows both). A negative limit \<open>m\<close> does not show the empty sequence: the
  slice drops the last \<open>- m\<close> tasks of the ranking and shows the rest.
\<close>

theorem displayed_tasks_top_n:
  assumes "1 \<le> n" and "m < 0"
  shows "displayed_tasks (Some n) w = take (nat n) (fst (get_sorted_tasks True w))
         \<and> displayed_tasks (Some (int (length (tasks w) + k))) w = fst (get_sorted_tasks True w)
         \<and> displayed_tasks (Some m) w
             = take (length (tasks w) - nat (- m)) (fst (get_sorted_tasks True w))"
proof (intro conjI)
  show "displayed_tasks (Some n) w = take (nat n) (fst (get_sorted_tasks True w))"
    using assms(1) by (simp add: displayed_tasks_def slice_to_def Let_def)
  show "displayed_tasks (Some (int (length (tasks w) + k))) w = fst (get_sorted_tasks True w)"
    by (simp add: displayed_tasks_def slice_to_def get_sorted_tasks_def
        length_py_sorted Let_def)
  show "displayed_tasks (Some m) w
          = take (length (tasks w) - nat (- m)) (fst (get_sorted_tasks True w))"
    using assms(2)
    by (simp add: displayed_tasks_def slice_to_def get_sorted_tasks_def
        length_py_sorted Let_def)
qed

theorem displayed_tasks_top_n_witness:
  "(1::int) \<le> 3 \<and> (- 1::int) < 0
   \<and> displayed_tasks (Some 3) two_tasks = [1, 0]
   \<and> displayed_tasks (Some (int (length (tasks two_tasks) + 1))) two_tasks = [1, 0]
   \<and> displayed_tasks (Some (- 1)) two_tasks = [1]"
proof -
  have s: "fst (get_sorted_tasks True two_tasks) = [1, 0]" by code_simp
  have l: "length (tasks two_tasks) = 2" by (simp add: two_tasks_def)
  have a: "(1::int) \<le> 3" "(- 1::int) < 0" by simp_all
  show ?thesis
    using displayed_tasks_top_n[OF a, of two_tasks 1] unfolding s l by simp
qed

text \<open>
  Claim C3 as stated fails: with two tasks stored, the limit \<open>- 1\<close> shows the task that
  ranks first, not the empty sequence.
\<close>

theorem top_n_negative_counterexample:
  "displayed_tasks (Some (- 1)) two_tasks = [1] \<and> displayed_tasks (Some (- 1)) two_tasks \<noteq> []"
  by code_simp

section \<open>Loading\<close>

text \<open>
  Claim C4, amended. When the file is absent, or is not JSON, \<open>load_tasks_from_json\<close> raises
  nothing, prints one message for the failure and changes nothing else: the task
  collection and every task are what they were before.
\<close>

theorem load_failure_keeps_tasks:
  assumes "fs filepath = Missing \<or> fs filepath = Not_json"
  shows "load_tasks_from_json fs filepath w
           = (None, w\<lparr>stdout := stdout w @ [if fs filepath = Missing then File_not_found filepath
                                             else Invalid_json filepath]\<rparr>)"
  using assms by (auto simp add: load_tasks_from_json_def print_def)

theorem load_failure_keeps_tasks_witness:
  "(malformed_file ''sample_tasks.json'' = Missing \<or> malformed_file ''sample_tasks.json'' = Not_json)
   \<and> load_tasks_from_json malformed_file ''sample_tasks.json'' two_tasks
       = (None, two_tasks\<lparr>stdout := [Invalid_json ''sample_tasks.json'']\<rparr>)"
proof -
  have a: "malformed_file ''sample_tasks.json'' = Missing \<or> malformed_file ''sample_tasks.json'' = Not_json"
    by (simp add: malformed_file_def)
  show ?thesis
    using load_failure_keeps_tasks[of malformed_file "''sample_tasks.json''" two_tasks] a
    by (simp add: malformed_file_def two_tasks_def)
qed

text \<open>The other caught failure, on the same collection: the file is absent.\<close>

lemma load_missing_file_example:
  "load_tasks_from_json no_files ''sample_tasks.json'' two_tasks
     = (None, two_tasks\<lparr>stdout := [File_not_found ''sample_tasks.json'']\<rparr>)"
  by (simp add: load_tasks_from_json_def no_files_def print_def two_tasks_def)

text \<open>
  Claim C4 as stated fails for an input that is structurally invalid in another way: a JSON
  document whose task record lacks required fields makes \<^verbatim>\<open>Task(**task)\<close> raise
  \<^verbatim>\<open>TypeError\<close>, which the loader does not catch; nothing is printed, and the exception
  leaves \<open>load_tasks_from_json\<close>.
\<close>

theorem load_incomplete_record_counterexample:
  "load_tasks_from_json incomplete_record_file ''sample_tasks.json'' two_tasks
     = (Some TypeError, two_tasks)"
  by (simp add: load_tasks_from_json_def incomplete_record_file_def tasks_of_document_def
      get_tasks_def iterate_def make_task_def field_names_def required_fields_def)

section \<open>What scoring and ranking leave unchanged\<close>

lemma score_loop_frame:
  "tasks (snd (score_loop strptime clock k ts w)) = tasks w
   \<and> allocated (snd (score_loop strptime clock k ts w)) = allocated w
   \<and> (heap (snd (score_loop strptime clock k ts w)) a)\<lparr>score := x\<rparr> = (heap w a)\<lparr>score := x\<rparr>"
proof (induction ts arbitrary: k w)
  case Nil
  then show ?case by simp
next
  case (Cons t ts)
  show ?case
  proof (cases "calculate_task_score strptime (clock k) (heap w t)")
    case (Pair r out)
    show ?thesis
    proof (cases r)
      case (Inl e)
      then show ?thesis using Pair by simp
    next
      case (Inr s)
      then show ?thesis using Pair Cons.IH by simp
    qed
  qed
qed

lemma score_loop_untouched:
  "a \<notin> set ts \<Longrightarrow> heap (snd (score_loop strptime clock k ts w)) a = heap w a"
proof (induction ts arbitrary: k w)
  case Nil
  then show ?case by simp
next
  case (Cons t ts)
  then show ?case
    by (cases "calculate_task_score strptime (clock k) (heap w t)")
       (auto split: sum.splits)
qed

text \<open>A task that is not stored is not written at all.\<close>

lemma score_all_tasks_untouched:
  assumes "a \<notin> set (tasks w)"
  shows "heap (snd (score_all_tasks strptime clock w)) a = heap w a"
proof -
  have "heap (snd (score_all_tasks strptime clock w))
        = heap (snd (score_loop strptime clock 0 (tasks w) w))"
    unfolding score_all_tasks_def
    by (cases "score_loop strptime clock 0 (tasks w) w";
        cases "fst (score_loop strptime clock 0 (tasks w) w)"; simp add: print_def)
  then show ?thesis using score_loop_untouched[OF assms] by simp
qed

text \<open>
  Claim C10. \<open>score_all_tasks\<close>, whether or not an exception ends it, leaves the list of
  stored tasks as it was (the same tasks in the same order), and leaves the name,
  urgency, importance, effort, deadline, status and priority of every task as they
  were: it writes scores only. \<open>get_sorted_tasks\<close> returns a list with the stored tasks
  and leaves the world, so also the stored list, unchanged.
\<close>

theorem score_all_tasks_frame:
  "tasks (snd (score_all_tasks strptime clock w)) = tasks w
   \<and> name (heap (snd (score_all_tasks strptime clock w)) a) = name (heap w a)
   \<and> urgency (heap (snd (score_all_tasks strptime clock w)) a) = urgency (heap w a)
   \<and> importance (heap (snd (score_all_tasks strptime clock w)) a) = importance (heap w a)
   \<and> effort (heap (snd (score_all_tasks strptime clock w)) a) = effort (heap w a)
   \<and> deadline (heap (snd (score_all_tasks strptime clock w)) a) = deadline (heap w a)
   \<and> status (heap (snd (score_all_tasks strptime clock w)) a) = status (heap w a)
   \<and> priority (heap (snd (score_all_tasks strptime clock w)) a) = priority (heap w a)
   \<and> snd (get_sorted_tasks r w) = w
   \<and> mset (fst (get_sorted_tasks r w)) = mset (tasks w)"
proof -
  define w1 where "w1 = snd (score_loop strptime clock 0 (tasks w) w)"
  have f: "tasks w1 = tasks w" "(heap w1 a)\<lparr>score := 0\<rparr> = (heap w a)\<lparr>score := 0\<rparr>"
    using score_loop_frame[where strptime = strptime and clock = clock and k = 0
        and ts = "tasks w" and w = w and a = a and x = 0]
    by (simp_all add: w1_def)
  have h: "heap (snd (score_all_tasks strptime clock w)) = heap w1"
    "tasks (snd (score_all_tasks strptime clock w)) = tasks w1"
    unfolding score_all_tasks_def w1_def
    by (cases "score_loop strptime clock 0 (tasks w) w";
        cases "fst (score_loop strptime clock 0 (tasks w) w)"; simp add: print_def)+
  have g: "name (heap w1 a) = name (heap w a)" "urgency (heap w1 a) = urgency (heap w a)"
    "importance (heap w1 a) = importance (heap w a)" "effort (heap w1 a) = effort (heap w a)"
    "deadline (heap w1 a) = deadline (heap w a)" "status (heap w1 a) = status (heap w a)"
    "priority (heap w1 a) = priority (heap w a)"
    using f(2) by (cases "heap w1 a"; cases "heap w a"; simp)+
  show ?thesis
    by (simp add: h f(1) g get_sorted_tasks_def py_sorted_mset)
qed

end
